theory Spec2Isabelle
  imports Complex_Main
begin

section \<open>JavaScript values\<close>

text \<open>
  The values the task code handles.  A number is a double: \<open>NaN\<close>, one of the two
  infinities, or a finite double, given by its exact value (the two zeros are one value;
  nothing here divides or prints a sign).  The arithmetic on doubles is in the section on
  the task viewer.
  A \<open>Date\<close> object is its time value in milliseconds, \<open>None\<close> for an invalid date.
  A string is a list of characters, one for each code unit.
  A property that holds a string or is missing (it then reads as \<open>undefined\<close>) is a
  \<open>string option\<close>; on such values the loose comparisons \<open>==\<close> and \<open>!=\<close> of the
  source are equality and its negation.
\<close>

datatype jsnum = NaN | PInf | NInf | Fin real

datatype jsval =
    JUndefined
  | JNull
  | JBool bool
  | JNum jsnum
  | JStr string
  | JDate "int option"

datatype error = TypeError | RangeError | SyntaxError | Rejection string

text \<open>How an awaited promise settles.\<close>

datatype 'a outcome = Resolved 'a | Rejected error

section \<open>The task collection (TaskData.js)\<close>

text \<open>
  The class \<open>TaskData\<close> keeps the collection \<open>taskArray\<close> and talks to two services
  through \<open>googleHandle\<close>, \<open>firestoreHandle\<close>, \<open>fetch\<close> and the Firestore client.
  The services are outside the class: a call on them is recorded in the state, and what
  an awaited call gives back is an argument of the operation that awaits it.  An
  operation returns the new state with the way its promise settles; a throw keeps the
  assignments made before it.  Operations run one after the other.  The counters
  \<open>i\<close> and \<open>j\<close>, which the source does not declare, are not read across calls and are
  local here.
\<close>

text \<open>
  One element of \<open>taskArray\<close>.  A field that the object does not have reads as
  \<open>undefined\<close>: \<open>None\<close> in the string fields, \<open>JUndefined\<close> in the others.
  The source's field \<open>id\<close> is \<open>task_id\<close> here.
\<close>

record task =
  name :: "string option"
  task_id :: "string option"
  taskListId :: "string option"
  dueDay :: "string option"
  priority :: jsval
  estTimeToComplete :: jsval
  timeSpent :: jsval
  dueDateAndTime :: jsval

text \<open>Calls made on \<open>firestoreHandle\<close> and \<open>googleHandle\<close>, with their arguments in order.\<close>

datatype fs_call =
    InitFirebaseTaskData string "string option" "string option"
  | UpdateFirebaseTaskData string "string option" "string option" jsval jsval jsval bool jsval
  | SetTaskCompleteInFirebase string "string option" bool
  | UpdateTimeSpentInFirebase string "string option" jsnum

datatype g_call =
    CreateGoogleTask "string option" jsval string
  | UpdateGoogleTask "string option" "string option" "string option" jsval string
  | CompleteGoogleTask "string option" jsval string

text \<open>
  The object's fields, and what it has done to the outside: the calls issued on the two
  handles and the lines written with \<open>console.log\<close>.
\<close>

record taskData =
  accessToken :: string
  userEmail :: string
  taskArray :: "task list"
  initiated :: bool
  fsCalls :: "fs_call list"
  gCalls :: "g_call list"
  console :: "string list"

text \<open>The constructor: an empty collection, nothing called or logged yet.\<close>

definition newTaskData :: "string \<Rightarrow> string \<Rightarrow> taskData" where
  "newTaskData a_accessToken a_userEmail =
     \<lparr>accessToken = a_accessToken, userEmail = a_userEmail, taskArray = [],
      initiated = False, fsCalls = [], gCalls = [], console = []\<rparr>"

subsection \<open>getGoogleData\<close>

text \<open>A task as the task-list service returns it (\<open>gid\<close> is its \<open>id\<close>).\<close>

record gtask =
  title :: "string option"
  gid :: "string option"
  status :: "string option"
  due :: "string option"

text \<open>
  What a \<open>fetch\<close> followed by \<open>.json()\<close> gives: the fetch is rejected (the source's
  \<open>catch\<close> logs the error and goes on with \<open>undefined\<close>), the body is not JSON, or the
  body is an object whose \<open>items\<close> is a list or is missing.
\<close>

datatype 'a response = FetchFailed string | JsonRejected | Body "'a list option"

definition newGoogleTask :: "string option \<Rightarrow> gtask \<Rightarrow> task" where
  "newGoogleTask listId t =
     \<lparr>name = title t, task_id = gid t, taskListId = listId, dueDay = due t,
      priority = JUndefined, estTimeToComplete = JUndefined, timeSpent = JUndefined,
      dueDateAndTime = JUndefined\<rparr>"

text \<open>The loop over \<open>j\<close>: \<open>k\<close> is always the length of \<open>tempTaskArray\<close>, so the store appends.\<close>

fun tasksLoop :: "string option \<Rightarrow> gtask list \<Rightarrow> task list \<Rightarrow> task list" where
  "tasksLoop listId [] tempTaskArray = tempTaskArray"
| "tasksLoop listId (t # ts) tempTaskArray =
     (if status t \<noteq> Some ''completed''
      then tasksLoop listId ts (tempTaskArray @ [newGoogleTask listId t])
      else tasksLoop listId ts tempTaskArray)"

text \<open>The loop over \<open>i\<close>; a task list is given by its \<open>id\<close>, the only field read.\<close>

fun listsLoop ::
  "(string option \<Rightarrow> gtask response) \<Rightarrow> string option list \<Rightarrow> taskData \<Rightarrow> task list
     \<Rightarrow> taskData \<times> task list outcome" where
  "listsLoop fetchTasks [] s tempTaskArray = (s, Resolved tempTaskArray)"
| "listsLoop fetchTasks (l # ls) s tempTaskArray =
     (case fetchTasks l of
        FetchFailed e \<Rightarrow>
          (s\<lparr>console := console s @ [''error message: '' @ e]\<rparr>, Rejected TypeError)
      | JsonRejected \<Rightarrow> (s, Rejected SyntaxError)
      | Body None \<Rightarrow> (s, Rejected TypeError)
      | Body (Some ts) \<Rightarrow> listsLoop fetchTasks ls s (tasksLoop l ts tempTaskArray))"

definition getGoogleData ::
  "taskData \<Rightarrow> string option response \<Rightarrow> (string option \<Rightarrow> gtask response)
     \<Rightarrow> taskData \<times> unit outcome" where
  "getGoogleData s taskLists fetchTasks =
     (case taskLists of
        FetchFailed e \<Rightarrow>
          (s\<lparr>console := console s @ [''error message: '' @ e]\<rparr>, Rejected TypeError)
      | JsonRejected \<Rightarrow> (s, Rejected SyntaxError)
      | Body None \<Rightarrow> (s, Rejected TypeError)
      | Body (Some ls) \<Rightarrow>
          (case listsLoop fetchTasks ls s [] of
             (s', Rejected e) \<Rightarrow> (s', Rejected e)
           | (s', Resolved tempTaskArray) \<Rightarrow> (s'\<lparr>taskArray := tempTaskArray\<rparr>, Resolved ())))"

subsection \<open>getFirebaseData\<close>

text \<open>The fields read from a task's document (\<open>taskFbData\<close>).\<close>

record fbdata =
  fb_dueTime :: "string option"
  fb_priority :: jsval
  fb_estTimeToComplete :: jsval
  fb_timeSpent :: jsval

text \<open>
  What \<open>await taskRef.get()\<close> and \<open>.data()\<close> give: the read is rejected, the document
  does not exist (\<open>data()\<close> is \<open>undefined\<close>), or the document's fields.
\<close>

datatype doc_read = GetRejected string | NoData | Data fbdata

text \<open>A string is truthy when it is not empty; \<open>undefined\<close> is falsy.\<close>

fun truthy :: "string option \<Rightarrow> bool" where
  "truthy None = False"
| "truthy (Some v) = (v \<noteq> [])"

definition str_or_undefined :: "string option \<Rightarrow> jsval" where
  "str_or_undefined v = (case v of None \<Rightarrow> JUndefined | Some x \<Rightarrow> JStr x)"

text \<open>The text that \<open>+\<close> appends to a string for such a value.\<close>

definition to_text :: "string option \<Rightarrow> string" where
  "to_text v = (case v of None \<Rightarrow> ''undefined'' | Some x \<Rightarrow> x)"

text \<open>
  One pass of the second loop on the element \<open>t\<close>.  \<open>substring(0, 10)\<close> on an
  \<open>undefined\<close> \<open>dueDay\<close> throws, as does reading \<open>dueTime\<close> of a missing document.
\<close>

definition enrichTask :: "(string option \<Rightarrow> doc_read) \<Rightarrow> task \<Rightarrow> error + task" where
  "enrichTask docs t =
     (case docs (task_id t) of
        GetRejected e \<Rightarrow> Inl (Rejection e)
      | NoData \<Rightarrow> Inl TypeError
      | Data taskFbData \<Rightarrow>
          (let finish = (\<lambda>dueDateAndTime'.
                 t\<lparr>priority := fb_priority taskFbData,
                   estTimeToComplete := fb_estTimeToComplete taskFbData,
                   timeSpent := fb_timeSpent taskFbData,
                   dueDateAndTime := dueDateAndTime',
                   dueDay := None\<rparr>)
           in if truthy (fb_dueTime taskFbData)
              then (case dueDay t of
                      None \<Rightarrow> Inl TypeError
                    | Some day \<Rightarrow>
                        Inr (finish (JStr (take 10 day @ to_text (fb_dueTime taskFbData)))))
              else Inr (finish (str_or_undefined (dueDay t)))))"

text \<open>The second loop: it stops at the first element that throws, the earlier ones changed.\<close>

fun enrichLoop :: "(string option \<Rightarrow> doc_read) \<Rightarrow> task list \<Rightarrow> task list \<times> unit outcome" where
  "enrichLoop docs [] = ([], Resolved ())"
| "enrichLoop docs (t # ts) =
     (case enrichTask docs t of
        Inl e \<Rightarrow> (t # ts, Rejected e)
      | Inr t' \<Rightarrow> (case enrichLoop docs ts of (ts', r) \<Rightarrow> (t' # ts', r)))"

definition getFirebaseData :: "taskData \<Rightarrow> (string option \<Rightarrow> doc_read) \<Rightarrow> taskData \<times> unit outcome" where
  "getFirebaseData s docs =
     (let s1 = s\<lparr>fsCalls := fsCalls s @
                  map (\<lambda>t. InitFirebaseTaskData (userEmail s) (task_id t) (name t)) (taskArray s)\<rparr>
      in case enrichLoop docs (taskArray s1) of
           (ts', r) \<Rightarrow> (s1\<lparr>taskArray := ts'\<rparr>, r))"

subsection \<open>initiate\<close>

definition initiate ::
  "taskData \<Rightarrow> string option response \<Rightarrow> (string option \<Rightarrow> gtask response)
     \<Rightarrow> (string option \<Rightarrow> doc_read) \<Rightarrow> taskData \<times> task list outcome" where
  "initiate s taskLists fetchTasks docs =
     (case getGoogleData s taskLists fetchTasks of
        (s1, Rejected e) \<Rightarrow> (s1, Rejected e)
      | (s1, Resolved _) \<Rightarrow>
          (case getFirebaseData s1 docs of
             (s2, Rejected e) \<Rightarrow> (s2, Rejected e)
           | (s2, Resolved _) \<Rightarrow> (s2, Resolved (taskArray s2))))"

subsection \<open>createTask\<close>

text \<open>
  \<open>created\<close> is how the awaited \<open>createGoogleTask\<close> settles.  The two calls on
  \<open>firestoreHandle\<close> are not awaited.
\<close>

definition createTask ::
  "taskData \<Rightarrow> string option outcome \<Rightarrow> string option \<Rightarrow> jsval \<Rightarrow> jsval \<Rightarrow> jsval
     \<Rightarrow> taskData \<times> unit outcome" where
  "createTask s created a_name a_dueDate a_priority a_estTimeToComplete =
     (let s1 = s\<lparr>gCalls := gCalls s @ [CreateGoogleTask a_name a_dueDate (accessToken s)]\<rparr>
      in case created of
           Rejected e \<Rightarrow> (s1, Rejected e)
         | Resolved taskId \<Rightarrow>
             (let s2 = s1\<lparr>fsCalls := fsCalls s1 @
                         [InitFirebaseTaskData (userEmail s1) taskId a_name,
                          UpdateFirebaseTaskData (userEmail s1) taskId a_name a_priority
                            a_estTimeToComplete (JNum (Fin 0)) False a_dueDate]\<rparr>;
                  newTask = \<lparr>name = a_name, task_id = taskId, taskListId = Some ''@default'',
                             dueDay = None, priority = a_priority,
                             estTimeToComplete = a_estTimeToComplete,
                             timeSpent = JNum (Fin 0), dueDateAndTime = a_dueDate\<rparr>
              in (s2\<lparr>taskArray := taskArray s2 @ [newTask]\<rparr>, Resolved ())))"

subsection \<open>findTask\<close>

fun findLoop :: "task list \<Rightarrow> string option \<Rightarrow> nat \<Rightarrow> nat option" where
  "findLoop [] taskId i = None"
| "findLoop (t # ts) taskId i =
     (if task_id t = taskId then Some i else findLoop ts taskId (Suc i))"

text \<open>The index of the first element with the id, or \<open>undefined\<close> (\<open>None\<close>) after a log line.\<close>

definition findTask :: "taskData \<Rightarrow> string option \<Rightarrow> taskData \<times> nat option" where
  "findTask s taskId =
     (case findLoop (taskArray s) taskId 0 of
        Some i \<Rightarrow> (s, Some i)
      | None \<Rightarrow> (s\<lparr>console := console s @ [''Error: Did not find task'']\<rparr>, None))"

subsection \<open>updateTask\<close>

text \<open>
  \<open>updated\<close> is how the awaited \<open>updateGoogleTask\<close> settles; its value replaces
  \<open>taskId\<close>.  \<open>toISOString\<close> is the platform's serialisation of a valid time value.
  With no index, \<open>this.taskArray[i]\<close> is \<open>undefined\<close> and the first assignment throws;
  \<open>dueDate.toISOString()\<close> throws after \<open>name\<close> has been assigned when \<open>dueDate\<close>
  is not a valid \<open>Date\<close>.
\<close>

definition updateTask ::
  "(int \<Rightarrow> string) \<Rightarrow> taskData \<Rightarrow> string option outcome \<Rightarrow> string option \<Rightarrow> string option
     \<Rightarrow> string option \<Rightarrow> jsval \<Rightarrow> jsval \<Rightarrow> jsval \<Rightarrow> jsval \<Rightarrow> taskData \<times> unit outcome" where
  "updateTask toISOString s updated a_taskId a_taskListId a_name a_dueDate a_priority
       a_estTimeToComplete a_timeSpent =
     (let s1 = s\<lparr>gCalls := gCalls s @
                  [UpdateGoogleTask a_taskId a_taskListId a_name a_dueDate (accessToken s)]\<rparr>
      in case updated of
           Rejected e \<Rightarrow> (s1, Rejected e)
         | Resolved taskId \<Rightarrow>
             (let s2 = s1\<lparr>fsCalls := fsCalls s1 @
                         [UpdateFirebaseTaskData (userEmail s1) taskId a_name a_priority
                            a_estTimeToComplete a_timeSpent False a_dueDate]\<rparr>
              in case findTask s2 taskId of
                   (s3, None) \<Rightarrow> (s3, Rejected TypeError)
                 | (s3, Some i) \<Rightarrow>
                     (let s4 = s3\<lparr>taskArray :=
                                 (taskArray s3)[i := (taskArray s3 ! i)\<lparr>name := a_name\<rparr>]\<rparr>
                      in case a_dueDate of
                           JDate (Some tv) \<Rightarrow>
                             (s4\<lparr>taskArray :=
                                  (taskArray s4)[i := (taskArray s4 ! i)
                                     \<lparr>dueDateAndTime := JStr (toISOString tv),
                                      priority := a_priority,
                                      estTimeToComplete := a_estTimeToComplete,
                                      timeSpent := a_timeSpent\<rparr>]\<rparr>,
                              Resolved ())
                         | JDate None \<Rightarrow> (s4, Rejected RangeError)
                         | _ \<Rightarrow> (s4, Rejected TypeError))))"

subsection \<open>completeTask\<close>

text \<open>
  \<open>splice(i, 1)\<close> removes the element at \<open>i\<close>; an \<open>undefined\<close> start index is
  converted to \<open>0\<close>.
\<close>

definition splice1 :: "nat option \<Rightarrow> 'a list \<Rightarrow> 'a list" where
  "splice1 i xs = (let start = (case i of None \<Rightarrow> 0 | Some n \<Rightarrow> n)
                   in take start xs @ drop (Suc start) xs)"

definition completeTask :: "taskData \<Rightarrow> string option \<Rightarrow> taskData \<times> unit outcome" where
  "completeTask s taskId =
     (let s1 = s\<lparr>fsCalls := fsCalls s @ [SetTaskCompleteInFirebase (userEmail s) taskId True]\<rparr>;
          s2 = s1\<lparr>gCalls := gCalls s1 @ [CompleteGoogleTask taskId JUndefined (accessToken s1)]\<rparr>
      in case findTask s2 taskId of
           (s3, i) \<Rightarrow> (s3\<lparr>taskArray := splice1 i (taskArray s3)\<rparr>, Resolved ()))"

section \<open>The time-spent update of the task viewer (ViewTaskModal, addTimeSpent)\<close>

text \<open>
  \<open>parseFloat\<close> reads a number from the text of its argument.  A number's own text
  reads back as the number (\<open>Infinity\<close> and \<open>NaN\<close> too); the text of \<open>undefined\<close>,
  \<open>null\<close>, a boolean or a \<open>Date\<close> does not start with a number, so the result is
  \<open>NaN\<close>.  How a string is read is the platform's: \<open>parseText\<close>.
\<close>

fun parseFloat :: "(string \<Rightarrow> jsnum) \<Rightarrow> jsval \<Rightarrow> jsnum" where
  "parseFloat parseText (JNum n) = n"
| "parseFloat parseText (JStr v) = parseText v"
| "parseFloat parseText JUndefined = NaN"
| "parseFloat parseText JNull = NaN"
| "parseFloat parseText (JBool b) = NaN"
| "parseFloat parseText (JDate d) = NaN"

text \<open>
  Addition and subtraction of doubles.  On finite doubles the exact result is rounded
  to a double; \<open>roundDouble\<close> is the platform's rounding (to the nearest double, to an
  infinity beyond the range).  The cases with an infinity or \<open>NaN\<close> are those of the
  floating-point standard.
\<close>

fun js_add :: "(real \<Rightarrow> jsnum) \<Rightarrow> jsnum \<Rightarrow> jsnum \<Rightarrow> jsnum" where
  "js_add roundDouble (Fin a) (Fin b) = roundDouble (a + b)"
| "js_add roundDouble NaN _ = NaN"
| "js_add roundDouble _ NaN = NaN"
| "js_add roundDouble PInf NInf = NaN"
| "js_add roundDouble NInf PInf = NaN"
| "js_add roundDouble PInf _ = PInf"
| "js_add roundDouble _ PInf = PInf"
| "js_add roundDouble NInf _ = NInf"
| "js_add roundDouble _ NInf = NInf"

fun js_sub :: "(real \<Rightarrow> jsnum) \<Rightarrow> jsnum \<Rightarrow> jsnum \<Rightarrow> jsnum" where
  "js_sub roundDouble (Fin a) (Fin b) = roundDouble (a - b)"
| "js_sub roundDouble NaN _ = NaN"
| "js_sub roundDouble _ NaN = NaN"
| "js_sub roundDouble PInf PInf = NaN"
| "js_sub roundDouble NInf NInf = NaN"
| "js_sub roundDouble PInf _ = PInf"
| "js_sub roundDouble _ NInf = PInf"
| "js_sub roundDouble NInf _ = NInf"
| "js_sub roundDouble _ PInf = NInf"

text \<open>The comparison \<open><\<close>: exact on doubles, false when a side is \<open>NaN\<close>.\<close>

fun js_lt :: "jsnum \<Rightarrow> jsnum \<Rightarrow> bool" where
  "js_lt (Fin a) (Fin b) = (a < b)"
| "js_lt NaN _ = False"
| "js_lt _ NaN = False"
| "js_lt PInf _ = False"
| "js_lt _ NInf = False"
| "js_lt NInf _ = True"
| "js_lt _ PInf = True"

text \<open>
  The fields of \<open>this.props.route.params.task\<close> that \<open>addTimeSpent\<close> reads.  They
  are the values the viewer was opened with: \<open>addTimeSpent\<close> does not assign them, and
  the call of \<open>timeSpentHandler\<close> that would tell the task is commented out.
\<close>

record viewTask =
  vt_id :: "string option"
  vt_timeSpent :: jsval
  vt_estTimeToComplete :: jsval

text \<open>The fields of the component's state that \<open>addTimeSpent\<close> reads or sets.\<close>

record modalState =
  inputTimeSpent :: jsval
  displayTimeSpent :: jsval
  displayTimeLeft :: jsval

text \<open>The new state, and the call issued on \<open>firestoreHandle\<close>.\<close>

definition addTimeSpent ::
  "(real \<Rightarrow> jsnum) \<Rightarrow> (string \<Rightarrow> jsnum) \<Rightarrow> string \<Rightarrow> viewTask \<Rightarrow> modalState
     \<Rightarrow> modalState \<times> fs_call" where
  "addTimeSpent roundDouble parseText a_userEmail task st =
     (let newTimeSpent =
            js_add roundDouble (parseFloat parseText (vt_timeSpent task))
                   (parseFloat parseText (inputTimeSpent st));
          call = UpdateTimeSpentInFirebase a_userEmail (vt_id task) newTimeSpent;
          newTimeLeft =
            js_sub roundDouble (parseFloat parseText (vt_estTimeToComplete task))
                   (parseFloat parseText (JNum newTimeSpent));
          newTimeLeft' = (if js_lt newTimeLeft (Fin 0) then Fin 0 else newTimeLeft)
      in (st\<lparr>displayTimeLeft := JNum newTimeLeft', displayTimeSpent := JNum newTimeSpent,
             inputTimeSpent := JNum (Fin 0)\<rparr>, call))"

text \<open>The text field's \<open>onChangeText\<close>: the entered text becomes \<open>inputTimeSpent\<close>.\<close>

definition onChangeText :: "string \<Rightarrow> modalState \<Rightarrow> modalState" where
  "onChangeText time st = st\<lparr>inputTimeSpent := JStr time\<rparr>"

section \<open>Notions used to state the properties\<close>

text \<open>Every per-list fetch of \<open>getGoogleData\<close> gives a body with an \<open>items\<close> list.\<close>

definition fetchedAll :: "(string option \<Rightarrow> gtask response) \<Rightarrow> string option list \<Rightarrow> bool" where
  "fetchedAll fetchTasks ls =
     list_all (\<lambda>l. case fetchTasks l of Body (Some ts) \<Rightarrow> True | _ \<Rightarrow> False) ls"

text \<open>All tasks the service returns for the lists \<open>ls\<close>, each with the id of its list.\<close>

definition returnedTasks ::
  "(string option \<Rightarrow> gtask response) \<Rightarrow> string option list \<Rightarrow> (string option \<times> gtask) list" where
  "returnedTasks fetchTasks ls =
     concat (map (\<lambda>l. case fetchTasks l of Body (Some ts) \<Rightarrow> map (Pair l) ts | _ \<Rightarrow> []) ls)"

text \<open>The tasks among them whose status is not \<open>completed\<close>.\<close>

definition openTasks :: "(string option \<times> gtask) list \<Rightarrow> (string option \<times> gtask) list" where
  "openTasks lts = filter (\<lambda>(l, t). status t \<noteq> Some ''completed'') lts"

text \<open>No two records of the collection have the same id.\<close>

definition uniqueIds :: "taskData \<Rightarrow> bool" where
  "uniqueIds s = distinct (map task_id (taskArray s))"

text \<open>
  The document of \<open>t\<close> can be read, and \<open>t\<close> has a \<open>dueDay\<close> when the document has
  a time to splice onto it.
\<close>

definition enrichable :: "(string option \<Rightarrow> doc_read) \<Rightarrow> task \<Rightarrow> bool" where
  "enrichable docs t =
     (case docs (task_id t) of
        Data d \<Rightarrow> (if truthy (fb_dueTime d) then dueDay t \<noteq> None else True)
      | _ \<Rightarrow> False)"

section \<open>Example data\<close>

definition ex_task :: "string \<Rightarrow> string \<Rightarrow> task" where
  "ex_task i l =
     \<lparr>name = Some ''water the plants'', task_id = Some i, taskListId = Some l, dueDay = None,
      priority = JStr ''low'', estTimeToComplete = JNum (Fin 10), timeSpent = JNum (Fin 4),
      dueDateAndTime = JStr ''2022-04-05T17:23:42''\<rparr>"

text \<open>The object as the constructor leaves it, and with three tasks in the collection.\<close>

definition ex_new :: taskData where
  "ex_new = newTaskData ''token'' ''user@example.com''"

definition ex_data :: taskData where
  "ex_data =
     ex_new\<lparr>taskArray := [ex_task ''a'' ''L1'', ex_task ''b'' ''L1'', ex_task ''c'' ''L2'']\<rparr>"

definition ex_gtask :: "string \<Rightarrow> string \<Rightarrow> gtask" where
  "ex_gtask i st =
     \<lparr>title = Some ''water the plants'', gid = Some i, status = Some st,
      due = Some ''2022-04-05T00:00:00.000Z''\<rparr>"

text \<open>List \<open>L1\<close> holds an open and a completed task, list \<open>L2\<close> an open one.\<close>

definition ex_fetchTasks :: "string option \<Rightarrow> gtask response" where
  "ex_fetchTasks l =
     (if l = Some ''L1''
      then Body (Some [ex_gtask ''a'' ''needsAction'', ex_gtask ''b'' ''completed''])
      else if l = Some ''L2'' then Body (Some [ex_gtask ''c'' ''needsAction''])
      else FetchFailed ''Network request failed'')"

text \<open>The document of task \<open>a\<close> has a due time, that of the others has none.\<close>

definition ex_docs :: "string option \<Rightarrow> doc_read" where
  "ex_docs i =
     (if i = Some ''a''
      then Data \<lparr>fb_dueTime = Some ''T17:23:42'', fb_priority = JStr ''high'',
                 fb_estTimeToComplete = JNum (Fin 10), fb_timeSpent = JNum (Fin 4)\<rparr>
      else Data \<lparr>fb_dueTime = None, fb_priority = JStr ''low'',
                 fb_estTimeToComplete = JNull, fb_timeSpent = JNum (Fin 0)\<rparr>)"

text \<open>The object after \<open>getGoogleData\<close> has stored the two open tasks.\<close>

definition ex_loaded :: taskData where
  "ex_loaded =
     ex_new\<lparr>taskArray :=
       [\<lparr>name = Some ''water the plants'', task_id = Some ''a'', taskListId = Some ''L1'',
         dueDay = Some ''2022-04-05T00:00:00.000Z'', priority = JUndefined,
         estTimeToComplete = JUndefined, timeSpent = JUndefined, dueDateAndTime = JUndefined\<rparr>,
        \<lparr>name = Some ''water the plants'', task_id = Some ''c'', taskListId = Some ''L2'',
         dueDay = Some ''2022-04-05T00:00:00.000Z'', priority = JUndefined,
         estTimeToComplete = JUndefined, timeSpent = JUndefined, dueDateAndTime = JUndefined\<rparr>]\<rparr>"

text \<open>
  As \<open>ex_fetchTasks\<close>, but list \<open>L2\<close> is empty and, as the service does for an empty
  list, its body has no \<open>items\<close>.
\<close>

definition ex_fetchEmpty :: "string option \<Rightarrow> gtask response" where
  "ex_fetchEmpty l =
     (if l = Some ''L1''
      then Body (Some [ex_gtask ''a'' ''needsAction'', ex_gtask ''b'' ''completed''])
      else Body None)"

text \<open>A stand-in for the platform's reading of a string, right at the texts the examples use.\<close>

definition ex_parseText :: "string \<Rightarrow> jsnum" where
  "ex_parseText v = (if v = ''8'' then Fin 8 else if v = ''1'' then Fin 1 else NaN)"

text \<open>
  A stand-in for the rounding, right wherever the exact result is a double, as the small
  integers of the examples are.
\<close>

definition ex_roundDouble :: "real \<Rightarrow> jsnum" where
  "ex_roundDouble r = Fin r"

text \<open>A task with an estimate of 10 hours and 4 hours spent, and the viewer's state for it.\<close>

definition ex_viewTask :: viewTask where
  "ex_viewTask =
     \<lparr>vt_id = Some ''a'', vt_timeSpent = JNum (Fin 4), vt_estTimeToComplete = JNum (Fin 10)\<rparr>"

definition ex_modalState :: "jsval \<Rightarrow> modalState" where
  "ex_modalState input =
     \<lparr>inputTimeSpent = input, displayTimeSpent = JNum (Fin 4), displayTimeLeft = JNum (Fin 6)\<rparr>"

text \<open>A stand-in for \<open>toISOString\<close>, right at the two time values the examples use.\<close>

definition ex_toISOString :: "int \<Rightarrow> string" where
  "ex_toISOString tv =
     (if tv = 1649179422000 then ''2022-04-05T17:23:42.000Z'' else ''1970-01-01T00:00:00.000Z'')"

section \<open>Properties of createTask\<close>

text \<open>
  C4. When the awaited task-list creation call is rejected, \<open>createTask\<close> is rejected
  with the same reason, no call is issued on the document store and the local collection
  is as it was.
\<close>

theorem createTask_rejected_no_effect:
  "snd (createTask s (Rejected e) a_name a_dueDate a_priority a_est) = Rejected e \<and>
   fsCalls (fst (createTask s (Rejected e) a_name a_dueDate a_priority a_est)) = fsCalls s \<and>
   taskArray (fst (createTask s (Rejected e) a_name a_dueDate a_priority a_est)) = taskArray s"
  by (simp add: createTask_def)

text \<open>
  C6. When the task-list service returns \<open>taskId\<close>, \<open>createTask\<close> resolves and the
  local collection is the old one followed by one new record, which carries the supplied
  name, priority, estimate and due date, a time spent of 0, the returned id and the
  default list \<open>@default\<close>.
\<close>

theorem createTask_appends_one:
  "\<exists>t. createTask s (Resolved taskId) a_name a_dueDate a_priority a_est =
         (fst (createTask s (Resolved taskId) a_name a_dueDate a_priority a_est), Resolved ()) \<and>
       taskArray (fst (createTask s (Resolved taskId) a_name a_dueDate a_priority a_est)) =
         taskArray s @ [t] \<and>
       name t = a_name \<and> priority t = a_priority \<and> estTimeToComplete t = a_est \<and>
       dueDateAndTime t = a_dueDate \<and> timeSpent t = JNum (Fin 0) \<and>
       task_id t = taskId \<and> taskListId t = Some ''@default'' \<and> dueDay t = None"
  by (simp add: createTask_def)

section \<open>Properties of getGoogleData\<close>

lemma tasksLoop_filter:
  "tasksLoop l ts temp =
     temp @ map (\<lambda>(l, t). newGoogleTask l t) (openTasks (map (Pair l) ts))"
  by (induction ts arbitrary: temp) (simp_all add: openTasks_def)

lemma openTasks_append: "openTasks (xs @ ys) = openTasks xs @ openTasks ys"
  by (simp add: openTasks_def)

lemma listsLoop_all:
  "fetchedAll fetchTasks ls \<Longrightarrow>
   listsLoop fetchTasks ls s temp =
     (s, Resolved (temp @ map (\<lambda>(l, t). newGoogleTask l t) (openTasks (returnedTasks fetchTasks ls))))"
proof (induction ls arbitrary: temp)
  case Nil
  then show ?case by (simp add: returnedTasks_def openTasks_def)
next
  case (Cons l ls)
  from Cons.prems obtain ts where l: "fetchTasks l = Body (Some ts)"
    by (auto simp: fetchedAll_def split: response.splits option.splits)
  from Cons.prems have rest: "fetchedAll fetchTasks ls"
    by (simp add: fetchedAll_def)
  have "returnedTasks fetchTasks (l # ls) = map (Pair l) ts @ returnedTasks fetchTasks ls"
    by (simp add: returnedTasks_def l)
  then show ?case
    by (simp add: l Cons.IH [OF rest] tasksLoop_filter openTasks_append)
qed

lemma getGoogleData_all:
  "fetchedAll fetchTasks ls \<Longrightarrow>
   getGoogleData s (Body (Some ls)) fetchTasks =
     (s\<lparr>taskArray := map (\<lambda>(l, t). newGoogleTask l t) (openTasks (returnedTasks fetchTasks ls))\<rparr>,
      Resolved ())"
  by (simp add: getGoogleData_def listsLoop_all)

lemma newGoogleTask_ids:
  "map task_id (map (\<lambda>(l, t). newGoogleTask l t) lts) = map (gid \<circ> snd) lts"
  by (induction lts) (auto simp: newGoogleTask_def)

lemma completed_not_open:
  assumes d: "distinct (map (gid \<circ> snd) lts)"
    and m: "(l, t) \<in> set lts" and c: "status t = Some ''completed''"
  shows "gid t \<notin> set (map (gid \<circ> snd) (openTasks lts))"
proof
  assume "gid t \<in> set (map (gid \<circ> snd) (openTasks lts))"
  then obtain l' t' where o: "(l', t') \<in> set lts" "status t' \<noteq> Some ''completed''" "gid t' = gid t"
    by (auto simp: openTasks_def)
  from d have "inj_on (gid \<circ> snd) (set lts)"
    by (simp add: distinct_map)
  moreover have "(gid \<circ> snd) (l', t') = (gid \<circ> snd) (l, t)"
    using o by simp
  ultimately have "(l', t') = (l, t)"
    using m o by (blast dest: inj_onD)
  with o c show False by simp
qed

lemma listsLoop_taskArray: "taskArray (fst (listsLoop fetchTasks ls s temp)) = taskArray s"
  by (induction ls arbitrary: temp) (auto split: response.splits option.splits)

lemma listsLoop_resolved_all:
  "snd (listsLoop fetchTasks ls s temp) = Resolved temp' \<Longrightarrow> fetchedAll fetchTasks ls"
proof (induction ls arbitrary: temp)
  case Nil
  then show ?case by (simp add: fetchedAll_def)
next
  case (Cons l ls)
  show ?case
  proof (cases "fetchTasks l")
    case (FetchFailed e)
    with Cons.prems show ?thesis by simp
  next
    case JsonRejected
    with Cons.prems show ?thesis by simp
  next
    case (Body items)
    show ?thesis
    proof (cases items)
      case None
      with Body Cons.prems show ?thesis by simp
    next
      case (Some ts)
      with Body Cons.prems
      have "snd (listsLoop fetchTasks ls s (tasksLoop l ts temp)) = Resolved temp'"
        by simp
      then have "fetchedAll fetchTasks ls"
        by (rule Cons.IH)
      with Body Some show ?thesis
        by (simp add: fetchedAll_def)
    qed
  qed
qed

lemma getGoogleData_ids_cases:
  "map task_id (taskArray (fst (getGoogleData s taskLists fetchTasks))) = map task_id (taskArray s) \<or>
   (\<exists>ls. taskLists = Body (Some ls) \<and>
      map task_id (taskArray (fst (getGoogleData s taskLists fetchTasks))) =
        map (gid \<circ> snd) (openTasks (returnedTasks fetchTasks ls)))"
proof (cases taskLists)
  case (FetchFailed e)
  then show ?thesis by (simp add: getGoogleData_def)
next
  case JsonRejected
  then show ?thesis by (simp add: getGoogleData_def)
next
  case (Body items)
  show ?thesis
  proof (cases items)
    case None
    with Body show ?thesis by (simp add: getGoogleData_def)
  next
    case (Some ls)
    show ?thesis
    proof (cases "fetchedAll fetchTasks ls")
      case True
      have "taskArray (fst (getGoogleData s (Body (Some ls)) fetchTasks)) =
              map (\<lambda>(l, t). newGoogleTask l t) (openTasks (returnedTasks fetchTasks ls))"
        by (simp add: getGoogleData_all [OF True])
      then have "map task_id (taskArray (fst (getGoogleData s (Body (Some ls)) fetchTasks))) =
              map (gid \<circ> snd) (openTasks (returnedTasks fetchTasks ls))"
        by (simp only: newGoogleTask_ids)
      with Body Some show ?thesis by blast
    next
      case False
      obtain s' r where l: "listsLoop fetchTasks ls s [] = (s', r)"
        by (cases "listsLoop fetchTasks ls s []")
      have a: "taskArray s' = taskArray s"
        using listsLoop_taskArray [of fetchTasks ls s "[]"] l by simp
      have "\<exists>e. r = Rejected e"
      proof (cases r)
        case (Resolved temp')
        with l have "snd (listsLoop fetchTasks ls s []) = Resolved temp'" by simp
        from listsLoop_resolved_all [OF this] False show ?thesis by simp
      next
        case (Rejected e)
        then show ?thesis by blast
      qed
      with l a Body Some show ?thesis
        by (auto simp: getGoogleData_def)
    qed
  qed
qed

section \<open>Properties of getFirebaseData\<close>

lemma enrichTask_frame:
  "enrichTask docs t = Inr t' \<Longrightarrow>
   task_id t' = task_id t \<and> name t' = name t \<and> taskListId t' = taskListId t \<and> dueDay t' = None"
  by (auto simp: enrichTask_def Let_def split: doc_read.splits if_splits option.splits)

lemma enrichLoop_length: "length (fst (enrichLoop docs ts)) = length ts"
  by (induction ts) (auto simp: case_prod_beta split: sum.splits)

lemma enrichLoop_frame:
  "list_all2 (\<lambda>t t'. task_id t' = task_id t \<and> name t' = name t \<and> taskListId t' = taskListId t)
     ts (fst (enrichLoop docs ts))"
proof (induction ts)
  case Nil
  then show ?case by simp
next
  case (Cons t ts)
  show ?case
  proof (cases "enrichTask docs t")
    case (Inl e)
    then show ?thesis by (simp add: list_all2_refl)
  next
    case (Inr t')
    with Cons enrichTask_frame [OF Inr] show ?thesis
      by (simp add: case_prod_beta)
  qed
qed

lemma enrichLoop_ids: "map task_id (fst (enrichLoop docs ts)) = map task_id ts"
  by (induction ts) (auto simp: case_prod_beta split: sum.splits dest: enrichTask_frame)

lemma getFirebaseData_ids:
  "map task_id (taskArray (fst (getFirebaseData s docs))) = map task_id (taskArray s)"
  by (simp add: getFirebaseData_def case_prod_beta enrichLoop_ids)

lemma enrichLoop_resolved:
  "snd (enrichLoop docs ts) = Resolved () \<Longrightarrow>
   list_all2 (\<lambda>t t'. enrichTask docs t = Inr t') ts (fst (enrichLoop docs ts))"
  by (induction ts) (auto simp: case_prod_beta split: sum.splits)

lemma enrichTask_enrichable: "enrichable docs t \<Longrightarrow> \<exists>t'. enrichTask docs t = Inr t'"
  by (auto simp: enrichable_def enrichTask_def Let_def split: doc_read.splits option.splits if_splits)

lemma enrichLoop_enrichable:
  "list_all (enrichable docs) ts \<Longrightarrow> snd (enrichLoop docs ts) = Resolved ()"
proof (induction ts)
  case Nil
  then show ?case by simp
next
  case (Cons t ts)
  then obtain t' where "enrichTask docs t = Inr t'"
    using enrichTask_enrichable by fastforce
  with Cons show ?case by (simp add: case_prod_beta)
qed

lemma enrichTask_due:
  assumes "enrichTask docs t = Inr t'"
  shows "\<exists>d. docs (task_id t) = Data d \<and> dueDay t' = None \<and>
           priority t' = fb_priority d \<and> estTimeToComplete t' = fb_estTimeToComplete d \<and>
           timeSpent t' = fb_timeSpent d \<and>
           (\<forall>tm. fb_dueTime d = Some tm \<and> tm \<noteq> [] \<longrightarrow>
              (\<exists>day. dueDay t = Some day \<and> dueDateAndTime t' = JStr (take 10 day @ tm))) \<and>
           (fb_dueTime d = None \<or> fb_dueTime d = Some [] \<longrightarrow>
              dueDateAndTime t' = str_or_undefined (dueDay t))"
  using assms
  by (auto simp: enrichTask_def Let_def to_text_def
           split: doc_read.splits if_splits option.splits)




lemma enrichLoop_resolved_fields:
  "snd (enrichLoop docs ts) = Resolved () \<Longrightarrow>
   list_all2 (\<lambda>t t'. \<exists>d. docs (task_id t) = Data d \<and> priority t' = fb_priority d \<and>
                 estTimeToComplete t' = fb_estTimeToComplete d \<and>
                 timeSpent t' = fb_timeSpent d \<and> dueDay t' = None)
     ts (fst (enrichLoop docs ts))"
proof -
  assume "snd (enrichLoop docs ts) = Resolved ()"
  then have "list_all2 (\<lambda>t t'. enrichTask docs t = Inr t') ts (fst (enrichLoop docs ts))"
    by (rule enrichLoop_resolved)
  then show ?thesis
  proof (rule list_all2_mono)
    fix t t'
    assume "enrichTask docs t = Inr t'"
    from enrichTask_due [OF this]
    show "\<exists>d. docs (task_id t) = Data d \<and> priority t' = fb_priority d \<and>
              estTimeToComplete t' = fb_estTimeToComplete d \<and>
              timeSpent t' = fb_timeSpent d \<and> dueDay t' = None"
      by blast
  qed
qed

text \<open>
  C10. \<open>getFirebaseData\<close> keeps the number and the order of the records and the id,
  name and list id of each one, however it ends.  When it resolves, each record has the
  \<open>priority\<close>, \<open>estTimeToComplete\<close> and \<open>timeSpent\<close> of its document and no
  \<open>dueDay\<close>; \<open>dueDateAndTime\<close> is the fifth and last field it assigns.
\<close>

theorem getFirebaseData_frame:
  "length (taskArray (fst (getFirebaseData s docs))) = length (taskArray s) \<and>
   list_all2 (\<lambda>t t'. task_id t' = task_id t \<and> name t' = name t \<and> taskListId t' = taskListId t)
     (taskArray s) (taskArray (fst (getFirebaseData s docs))) \<and>
   (snd (getFirebaseData s docs) = Resolved () \<longrightarrow>
      list_all2 (\<lambda>t t'. \<exists>d. docs (task_id t) = Data d \<and> priority t' = fb_priority d \<and>
                    estTimeToComplete t' = fb_estTimeToComplete d \<and>
                    timeSpent t' = fb_timeSpent d \<and> dueDay t' = None)
        (taskArray s) (taskArray (fst (getFirebaseData s docs))))"
proof -
  have arr: "taskArray (fst (getFirebaseData s docs)) = fst (enrichLoop docs (taskArray s))"
    and out: "snd (getFirebaseData s docs) = snd (enrichLoop docs (taskArray s))"
    by (simp_all add: getFirebaseData_def case_prod_beta)
  show ?thesis
    unfolding arr out
    using enrichLoop_length [of docs "taskArray s"] enrichLoop_frame [of "taskArray s" docs]
      enrichLoop_resolved_fields [of docs "taskArray s"]
    by blast
qed

theorem getFirebaseData_frame_witness:
  "snd (getFirebaseData ex_loaded ex_docs) = Resolved () \<and>
   length (taskArray (fst (getFirebaseData ex_loaded ex_docs))) = 2 \<and>
   map task_id (taskArray (fst (getFirebaseData ex_loaded ex_docs))) = [Some ''a'', Some ''c''] \<and>
   list_all (\<lambda>t'. dueDay t' = None) (taskArray (fst (getFirebaseData ex_loaded ex_docs)))"
proof -
  have ok: "list_all (enrichable ex_docs) (taskArray ex_loaded)"
    by (simp add: enrichable_def ex_docs_def ex_loaded_def ex_new_def newTaskData_def newGoogleTask_def ex_gtask_def)
  have r: "snd (getFirebaseData ex_loaded ex_docs) = Resolved ()"
    using enrichLoop_enrichable [OF ok] by (simp add: getFirebaseData_def case_prod_beta)
  note t = getFirebaseData_frame [of ex_loaded ex_docs]
  have len: "length (taskArray ex_loaded) = 2"
    by (simp add: ex_loaded_def ex_new_def newTaskData_def)
  have ids: "map task_id (taskArray ex_loaded) = [Some ''a'', Some ''c'']"
    by (simp add: ex_loaded_def ex_new_def newTaskData_def newGoogleTask_def ex_gtask_def)
  from t have l: "length (taskArray (fst (getFirebaseData ex_loaded ex_docs))) = 2"
    using len by simp
  from t r have "list_all2 (\<lambda>t t'. \<exists>d. ex_docs (task_id t) = Data d \<and>
                    priority t' = fb_priority d \<and>
                    estTimeToComplete t' = fb_estTimeToComplete d \<and>
                    timeSpent t' = fb_timeSpent d \<and> dueDay t' = None)
        (taskArray ex_loaded) (taskArray (fst (getFirebaseData ex_loaded ex_docs)))"
    by blast
  then have dd: "list_all (\<lambda>t'. dueDay t' = None)
      (taskArray (fst (getFirebaseData ex_loaded ex_docs)))"
    by (auto simp: list_all_length list_all2_conv_all_nth)
  from r l getFirebaseData_ids [of ex_loaded ex_docs] ids dd show ?thesis by simp
qed

section \<open>Properties of initiate, and the tasks kept by getGoogleData\<close>

lemma initiate_ids:
  "map task_id (taskArray (fst (initiate s taskLists fetchTasks docs))) =
   map task_id (taskArray (fst (getGoogleData s taskLists fetchTasks)))"
proof (cases "getGoogleData s taskLists fetchTasks")
  case (Pair s1 r)
  show ?thesis
  proof (cases r)
    case (Resolved u)
    obtain s2 r2 where g: "getFirebaseData s1 docs = (s2, r2)"
      by (cases "getFirebaseData s1 docs")
    have "map task_id (taskArray s2) = map task_id (taskArray s1)"
      using getFirebaseData_ids [of s1 docs] g by simp
    then show ?thesis
      using Pair Resolved g by (cases r2) (simp_all add: initiate_def)
  next
    case (Rejected e)
    with Pair show ?thesis by (simp add: initiate_def)
  qed
qed

lemma getGoogleData_record_fields:
  "list_all2
     (\<lambda>(l, t) r. name r = title t \<and> task_id r = gid t \<and> taskListId r = l \<and> dueDay r = due t \<and>
        priority r = JUndefined \<and> estTimeToComplete r = JUndefined \<and>
        timeSpent r = JUndefined \<and> dueDateAndTime r = JUndefined)
     lts (map (\<lambda>(l, t). newGoogleTask l t) lts)"
  by (induction lts) (auto simp: newGoogleTask_def)

text \<open>
  What a load that gets all its answers does.  When every fetch gives its list of tasks,
  \<open>getGoogleData\<close> resolves and the collection is exactly the tasks whose status is not
  \<open>completed\<close>, in the order returned, each as the record of its title as name, its
  id, the id of its list and its due day, with no other field.  \<open>initiate\<close> leaves the
  same ids in the collection.  When the service's task ids are distinct, no record of the
  collection has the id of a task returned as \<open>completed\<close>, after \<open>getGoogleData\<close>
  and after \<open>initiate\<close>.
\<close>

lemma getGoogleData_keeps_open_tasks:
  assumes f: "fetchedAll fetchTasks ls"
  shows "snd (getGoogleData s (Body (Some ls)) fetchTasks) = Resolved () \<and>
         list_all2
           (\<lambda>(l, t) r. name r = title t \<and> task_id r = gid t \<and> taskListId r = l \<and>
              dueDay r = due t \<and> priority r = JUndefined \<and> estTimeToComplete r = JUndefined \<and>
              timeSpent r = JUndefined \<and> dueDateAndTime r = JUndefined)
           (openTasks (returnedTasks fetchTasks ls))
           (taskArray (fst (getGoogleData s (Body (Some ls)) fetchTasks))) \<and>
         map task_id (taskArray (fst (initiate s (Body (Some ls)) fetchTasks docs))) =
           map (gid \<circ> snd) (openTasks (returnedTasks fetchTasks ls)) \<and>
         (distinct (map (gid \<circ> snd) (returnedTasks fetchTasks ls)) \<longrightarrow>
            (\<forall>(l, t) \<in> set (returnedTasks fetchTasks ls). status t = Some ''completed'' \<longrightarrow>
               gid t \<notin> task_id ` set (taskArray (fst (getGoogleData s (Body (Some ls)) fetchTasks))) \<and>
               gid t \<notin> task_id ` set (taskArray (fst (initiate s (Body (Some ls)) fetchTasks docs)))))"
proof -
  let ?open = "openTasks (returnedTasks fetchTasks ls)"
  have g: "getGoogleData s (Body (Some ls)) fetchTasks =
             (s\<lparr>taskArray := map (\<lambda>(l, t). newGoogleTask l t) ?open\<rparr>, Resolved ())"
    by (rule getGoogleData_all [OF f])
  have arr: "taskArray (fst (getGoogleData s (Body (Some ls)) fetchTasks)) =
               map (\<lambda>(l, t). newGoogleTask l t) ?open"
    by (simp add: g)
  have res: "snd (getGoogleData s (Body (Some ls)) fetchTasks) = Resolved ()"
    by (simp add: g)
  have fields: "list_all2
           (\<lambda>(l, t) r. name r = title t \<and> task_id r = gid t \<and> taskListId r = l \<and>
              dueDay r = due t \<and> priority r = JUndefined \<and> estTimeToComplete r = JUndefined \<and>
              timeSpent r = JUndefined \<and> dueDateAndTime r = JUndefined)
           ?open (taskArray (fst (getGoogleData s (Body (Some ls)) fetchTasks)))"
    unfolding arr by (rule getGoogleData_record_fields)
  have ids1: "map task_id (taskArray (fst (getGoogleData s (Body (Some ls)) fetchTasks))) =
                map (gid \<circ> snd) ?open"
    unfolding arr by (simp only: newGoogleTask_ids)
  have ids2: "map task_id (taskArray (fst (initiate s (Body (Some ls)) fetchTasks docs))) =
                map (gid \<circ> snd) ?open"
    by (simp only: initiate_ids ids1)
  have set1: "task_id ` set (taskArray (fst (getGoogleData s (Body (Some ls)) fetchTasks))) =
                set (map (gid \<circ> snd) ?open)"
    using ids1 by (metis set_map)
  have set2: "task_id ` set (taskArray (fst (initiate s (Body (Some ls)) fetchTasks docs))) =
                set (map (gid \<circ> snd) ?open)"
    using ids2 by (metis set_map)
  have excl: "distinct (map (gid \<circ> snd) (returnedTasks fetchTasks ls)) \<longrightarrow>
            (\<forall>(l, t) \<in> set (returnedTasks fetchTasks ls). status t = Some ''completed'' \<longrightarrow>
               gid t \<notin> task_id ` set (taskArray (fst (getGoogleData s (Body (Some ls)) fetchTasks))) \<and>
               gid t \<notin> task_id ` set (taskArray (fst (initiate s (Body (Some ls)) fetchTasks docs))))"
    unfolding set1 set2 using completed_not_open by blast
  from res fields ids2 excl show ?thesis by blast
qed

text \<open>
  The example: list \<open>L1\<close> with the open task \<open>a\<close> and the completed task \<open>b\<close>, list
  \<open>L2\<close> with the open task \<open>c\<close>.
\<close>

lemma getGoogleData_keeps_open_tasks_example:
  "getGoogleData ex_new (Body (Some [Some ''L1'', Some ''L2''])) ex_fetchTasks =
     (ex_loaded, Resolved ()) \<and>
   map task_id (taskArray (fst (initiate ex_new (Body (Some [Some ''L1'', Some ''L2'']))
      ex_fetchTasks ex_docs))) = [Some ''a'', Some ''c'']"
proof -
  let ?ls = "[Some ''L1'', Some ''L2'']"
  have f: "fetchedAll ex_fetchTasks ?ls"
    by (simp add: fetchedAll_def ex_fetchTasks_def)
  have o: "openTasks (returnedTasks ex_fetchTasks ?ls) =
             [(Some ''L1'', ex_gtask ''a'' ''needsAction''),
              (Some ''L2'', ex_gtask ''c'' ''needsAction'')]"
    by (simp add: returnedTasks_def ex_fetchTasks_def openTasks_def ex_gtask_def)
  have 1: "getGoogleData ex_new (Body (Some ?ls)) ex_fetchTasks = (ex_loaded, Resolved ())"
    by (simp add: getGoogleData_all [OF f] o ex_loaded_def newGoogleTask_def ex_gtask_def)
  have 2: "map task_id (taskArray (fst (initiate ex_new (Body (Some ?ls)) ex_fetchTasks ex_docs))) =
             [Some ''a'', Some ''c'']"
    using getGoogleData_keeps_open_tasks [OF f, of ex_new ex_docs] by (simp add: o ex_gtask_def)
  from 1 2 show ?thesis by blast
qed

text \<open>
  C1. After \<open>getGoogleData\<close> the collection should be exactly the tasks that the service
  returns as not completed.  It is not when a list is empty: the body then has no
  \<open>items\<close>, reading \<open>taskJson.items.length\<close> throws, and the load is rejected before
  it assigns \<open>taskArray\<close>.  Here list \<open>L1\<close> returns the open task \<open>a\<close> and the
  completed task \<open>b\<close>, and list \<open>L2\<close> is empty.  On a new object nothing is stored,
  \<open>a\<close> neither, and \<open>initiate\<close> is rejected the same way; on an object that holds
  \<open>a\<close>, \<open>b\<close> and \<open>c\<close> from an earlier load, the record of \<open>b\<close> stays.
\<close>

theorem getGoogleData_empty_list_rejected:
  "getGoogleData ex_new (Body (Some [Some ''L1'', Some ''L2''])) ex_fetchEmpty =
     (ex_new, Rejected TypeError) \<and>
   taskArray ex_new = [] \<and>
   initiate ex_new (Body (Some [Some ''L1'', Some ''L2''])) ex_fetchEmpty ex_docs =
     (ex_new, Rejected TypeError) \<and>
   returnedTasks ex_fetchEmpty [Some ''L1'', Some ''L2''] =
     [(Some ''L1'', ex_gtask ''a'' ''needsAction''), (Some ''L1'', ex_gtask ''b'' ''completed'')] \<and>
   status (ex_gtask ''a'' ''needsAction'') = Some ''needsAction'' \<and>
   status (ex_gtask ''b'' ''completed'') = Some ''completed'' \<and>
   getGoogleData ex_data (Body (Some [Some ''L1'', Some ''L2''])) ex_fetchEmpty =
     (ex_data, Rejected TypeError) \<and>
   map task_id (taskArray ex_data) = [Some ''a'', Some ''b'', Some ''c'']"
  by (simp add: getGoogleData_def initiate_def returnedTasks_def ex_fetchEmpty_def ex_gtask_def
        ex_data_def ex_new_def newTaskData_def ex_task_def)

section \<open>Properties of findTask, completeTask and updateTask\<close>

lemma findLoop_None: "(findLoop ts taskId k = None) = (taskId \<notin> set (map task_id ts))"
  by (induction ts arbitrary: k) auto

lemma findLoop_Some:
  "findLoop ts taskId k = Some n \<Longrightarrow>
   \<exists>i. n = k + i \<and> i < length ts \<and> task_id (ts ! i) = taskId \<and>
       (\<forall>j<i. task_id (ts ! j) \<noteq> taskId)"
proof (induction ts arbitrary: k)
  case Nil
  then show ?case by simp
next
  case (Cons t ts)
  show ?case
  proof (cases "task_id t = taskId")
    case True
    with Cons.prems show ?thesis by auto
  next
    case False
    with Cons.prems have "findLoop ts taskId (Suc k) = Some n" by simp
    from Cons.IH [OF this] obtain i where i: "n = Suc k + i" "i < length ts"
      "task_id (ts ! i) = taskId" "\<forall>j<i. task_id (ts ! j) \<noteq> taskId"
      by blast
    have "\<forall>j<Suc i. task_id ((t # ts) ! j) \<noteq> taskId"
      using False i(4) by (auto simp: nth_Cons split: nat.splits)
    with i show ?thesis
      by (intro exI [of _ "Suc i"]) simp
  qed
qed

lemma findTask_present:
  assumes "taskId \<in> set (map task_id (taskArray s))"
  shows "\<exists>i. findTask s taskId = (s, Some i) \<and> i < length (taskArray s) \<and>
             task_id (taskArray s ! i) = taskId \<and>
             (\<forall>j<i. task_id (taskArray s ! j) \<noteq> taskId)"
proof -
  from assms obtain n where n: "findLoop (taskArray s) taskId 0 = Some n"
    using findLoop_None [of "taskArray s" taskId 0] by auto
  from findLoop_Some [OF n] n show ?thesis
    by (auto simp: findTask_def)
qed

lemma findTask_absent:
  assumes "taskId \<notin> set (map task_id (taskArray s))"
  shows "findTask s taskId = (s\<lparr>console := console s @ [''Error: Did not find task'']\<rparr>, None)"
  using assms findLoop_None [of "taskArray s" taskId 0] by (simp add: findTask_def)

lemma completeTask_absent:
  assumes "taskId \<notin> set (map task_id (taskArray s))"
  shows "snd (completeTask s taskId) = Resolved () \<and>
         taskArray (fst (completeTask s taskId)) = drop 1 (taskArray s) \<and>
         console (fst (completeTask s taskId)) = console s @ [''Error: Did not find task'']"
proof -
  let ?s2 = "s\<lparr>fsCalls := fsCalls s @ [SetTaskCompleteInFirebase (userEmail s) taskId True],
               gCalls := gCalls s @ [CompleteGoogleTask taskId JUndefined (accessToken s)]\<rparr>"
  have "taskId \<notin> set (map task_id (taskArray ?s2))"
    using assms by simp
  from findTask_absent [OF this] show ?thesis
    by (simp add: completeTask_def Let_def splice1_def)
qed

lemma updateTask_absent:
  assumes "taskId \<notin> set (map task_id (taskArray s))"
  shows "snd (updateTask toISO s (Resolved taskId) a_taskId a_taskListId a_name a_dueDate a_priority a_est a_timeSpent) = Rejected TypeError \<and>
         taskArray (fst (updateTask toISO s (Resolved taskId) a_taskId a_taskListId a_name a_dueDate a_priority a_est a_timeSpent)) = taskArray s"
proof -
  let ?s2 = "s\<lparr>gCalls := gCalls s @
                  [UpdateGoogleTask a_taskId a_taskListId a_name a_dueDate (accessToken s)],
               fsCalls := fsCalls s @
                         [UpdateFirebaseTaskData (userEmail s) taskId a_name a_priority
                            a_est a_timeSpent False a_dueDate]\<rparr>"
  have "taskId \<notin> set (map task_id (taskArray ?s2))"
    using assms by simp
  from findTask_absent [OF this] show ?thesis
    by (simp add: updateTask_def Let_def)
qed

lemma map_update_same: "f y = f (xs ! i) \<Longrightarrow> map f (xs[i := y]) = map f xs"
  by (induction xs arbitrary: i) (auto split: nat.splits)

lemma updateTask_ids:
  "map task_id (taskArray (fst (updateTask toISO s updated a_taskId a_taskListId a_name a_dueDate
      a_priority a_est a_timeSpent))) = map task_id (taskArray s)"
proof (cases updated)
  case (Rejected e)
  then show ?thesis by (simp add: updateTask_def)
next
  case (Resolved taskId)
  show ?thesis
  proof (cases "findLoop (taskArray s) taskId 0")
    case None
    with Resolved show ?thesis
      by (simp add: updateTask_def findTask_def Let_def)
  next
    case (Some i)
    from findLoop_Some [OF Some] have "i < length (taskArray s)"
      by auto
    with Resolved Some show ?thesis
      by (cases a_dueDate)
         (simp_all add: updateTask_def findTask_def Let_def map_update_same split: option.splits)
  qed
qed

lemma distinct_map_splice:
  "distinct (map f xs) \<Longrightarrow> distinct (map f (take n xs @ drop (Suc n) xs))"
proof (induction xs arbitrary: n)
  case Nil
  then show ?case by simp
next
  case (Cons x xs)
  show ?case
  proof (cases n)
    case 0
    with Cons.prems show ?thesis by simp
  next
    case (Suc m)
    from Cons.prems have d: "distinct (map f xs)" and x: "f x \<notin> f ` set xs"
      by simp_all
    have "set (take m xs @ drop (Suc m) xs) \<subseteq> set xs"
      using set_take_subset [of m xs] set_drop_subset [of "Suc m" xs] by auto
    with x have "f x \<notin> f ` set (take m xs @ drop (Suc m) xs)"
      by blast
    with Cons.IH [OF d, of m] Suc show ?thesis
      by auto
  qed
qed

lemma completeTask_splice:
  "\<exists>i. taskArray (fst (completeTask s taskId)) = splice1 i (taskArray s)"
  by (auto simp: completeTask_def findTask_def Let_def split: option.splits)

text \<open>
  C7. For an id that some record has, \<open>completeTask\<close> resolves and removes the first
  record with that id: the collection is the records before it followed by the records
  after it, one record shorter.
\<close>

theorem completeTask_removes_first_match:
  assumes "taskId \<in> set (map task_id (taskArray s))"
  shows "\<exists>i. i < length (taskArray s) \<and> task_id (taskArray s ! i) = taskId \<and>
             (\<forall>j<i. task_id (taskArray s ! j) \<noteq> taskId) \<and>
             snd (completeTask s taskId) = Resolved () \<and>
             taskArray (fst (completeTask s taskId)) =
               take i (taskArray s) @ drop (Suc i) (taskArray s) \<and>
             Suc (length (taskArray (fst (completeTask s taskId)))) = length (taskArray s)"
proof -
  let ?s2 = "s\<lparr>fsCalls := fsCalls s @ [SetTaskCompleteInFirebase (userEmail s) taskId True],
               gCalls := gCalls s @ [CompleteGoogleTask taskId JUndefined (accessToken s)]\<rparr>"
  have "taskId \<in> set (map task_id (taskArray ?s2))"
    using assms by simp
  from findTask_present [OF this] obtain i where i:
    "findTask ?s2 taskId = (?s2, Some i)" "i < length (taskArray s)"
    "task_id (taskArray s ! i) = taskId" "\<forall>j<i. task_id (taskArray s ! j) \<noteq> taskId"
    by auto
  have c: "completeTask s taskId =
             (?s2\<lparr>taskArray := take i (taskArray s) @ drop (Suc i) (taskArray s)\<rparr>, Resolved ())"
    by (simp add: completeTask_def Let_def i(1) splice1_def)
  have "Suc (length (take i (taskArray s) @ drop (Suc i) (taskArray s))) = length (taskArray s)"
    using i(2) by simp
  with c i show ?thesis
    by (intro exI [of _ i]) simp
qed

theorem completeTask_removes_first_match_witness:
  "Some ''b'' \<in> set (map task_id (taskArray ex_data)) \<and>
   snd (completeTask ex_data (Some ''b'')) = Resolved () \<and>
   taskArray (fst (completeTask ex_data (Some ''b''))) = [ex_task ''a'' ''L1'', ex_task ''c'' ''L2'']"
proof -
  have ids: "map task_id (taskArray ex_data) = [Some ''a'', Some ''b'', Some ''c'']"
    by (simp add: ex_data_def ex_new_def newTaskData_def ex_task_def)
  have m: "Some ''b'' \<in> set (map task_id (taskArray ex_data))"
    by (simp add: ids)
  from completeTask_removes_first_match [OF m] obtain i where i:
    "i < length (taskArray ex_data)" "task_id (taskArray ex_data ! i) = Some ''b''"
    "snd (completeTask ex_data (Some ''b'')) = Resolved ()"
    "taskArray (fst (completeTask ex_data (Some ''b''))) =
       take i (taskArray ex_data) @ drop (Suc i) (taskArray ex_data)"
    by blast
  have "map task_id (taskArray ex_data) ! i = Some ''b''"
    using i(1,2) by simp
  moreover have "i < 3"
    using i(1) by (simp add: ex_data_def ex_new_def newTaskData_def)
  ultimately have "i = 1"
    unfolding ids by (auto simp: nth_Cons split: nat.splits)
  with i(4) have "taskArray (fst (completeTask ex_data (Some ''b''))) =
      [ex_task ''a'' ''L1'', ex_task ''c'' ''L2'']"
    by (simp add: ex_data_def ex_new_def newTaskData_def)
  with m i(3) show ?thesis by blast
qed

text \<open>
  C8 as stated does not hold: \<open>updateTask\<close> does not replace the record field by
  field with the supplied values.  Called for task \<open>a\<close> of list \<open>L1\<close> with the list
  id \<open>L9\<close>, it resolves and the record still has the list id \<open>L1\<close>, so it is not the
  record made of the supplied values.
\<close>

theorem updateTask_keeps_taskListId_counterexample:
  "task_id (taskArray ex_data ! 0) = Some ''a'' \<and>
   snd (updateTask ex_toISOString ex_data (Resolved (Some ''a'')) (Some ''a'') (Some ''L9'')
          (Some ''repot the fern'') (JDate (Some 1649179422000)) (JStr ''high'')
          (JNum (Fin 3)) (JNum (Fin 1))) = Resolved () \<and>
   taskListId (taskArray (fst (updateTask ex_toISOString ex_data (Resolved (Some ''a''))
          (Some ''a'') (Some ''L9'') (Some ''repot the fern'') (JDate (Some 1649179422000))
          (JStr ''high'') (JNum (Fin 3)) (JNum (Fin 1)))) ! 0) = Some ''L1'' \<and>
   taskArray (fst (updateTask ex_toISOString ex_data (Resolved (Some ''a''))
          (Some ''a'') (Some ''L9'') (Some ''repot the fern'') (JDate (Some 1649179422000))
          (JStr ''high'') (JNum (Fin 3)) (JNum (Fin 1)))) ! 0 \<noteq>
     \<lparr>name = Some ''repot the fern'', task_id = Some ''a'', taskListId = Some ''L9'',
      dueDay = None, priority = JStr ''high'', estTimeToComplete = JNum (Fin 3),
      timeSpent = JNum (Fin 1), dueDateAndTime = JStr ''2022-04-05T17:23:42.000Z''\<rparr>"
  by (simp add: updateTask_def findTask_def ex_data_def ex_new_def newTaskData_def ex_task_def ex_toISOString_def Let_def)

text \<open>
  C8, amended. When the task-list service returns an id that some record has and
  \<open>dueDate\<close> is a valid \<open>Date\<close>, \<open>updateTask\<close> resolves and overwrites, in the
  first record with that id, the name, priority, estimate and time spent with the supplied
  values and \<open>dueDateAndTime\<close> with the ISO text of \<open>dueDate\<close>; the id, the list id
  and every other record stay as they were.
\<close>

theorem updateTask_overwrites_five_fields:
  assumes "taskId \<in> set (map task_id (taskArray s))"
  shows "\<exists>i. i < length (taskArray s) \<and> task_id (taskArray s ! i) = taskId \<and>
             (\<forall>j<i. task_id (taskArray s ! j) \<noteq> taskId) \<and>
             snd (updateTask toISO s (Resolved taskId) a_taskId a_taskListId a_name
                    (JDate (Some tv)) a_priority a_est a_timeSpent) = Resolved () \<and>
             taskArray (fst (updateTask toISO s (Resolved taskId) a_taskId a_taskListId a_name
                    (JDate (Some tv)) a_priority a_est a_timeSpent)) =
               (taskArray s)[i := (taskArray s ! i)
                  \<lparr>name := a_name, dueDateAndTime := JStr (toISO tv), priority := a_priority,
                   estTimeToComplete := a_est, timeSpent := a_timeSpent\<rparr>]"
proof -
  let ?s2 = "s\<lparr>gCalls := gCalls s @
                  [UpdateGoogleTask a_taskId a_taskListId a_name (JDate (Some tv)) (accessToken s)],
               fsCalls := fsCalls s @
                         [UpdateFirebaseTaskData (userEmail s) taskId a_name a_priority
                            a_est a_timeSpent False (JDate (Some tv))]\<rparr>"
  have "taskId \<in> set (map task_id (taskArray ?s2))"
    using assms by simp
  from findTask_present [OF this] obtain i where i:
    "findTask ?s2 taskId = (?s2, Some i)" "i < length (taskArray s)"
    "task_id (taskArray s ! i) = taskId" "\<forall>j<i. task_id (taskArray s ! j) \<noteq> taskId"
    by auto
  have "updateTask toISO s (Resolved taskId) a_taskId a_taskListId a_name
          (JDate (Some tv)) a_priority a_est a_timeSpent =
        (?s2\<lparr>taskArray := (taskArray s)[i := (taskArray s ! i)
                  \<lparr>name := a_name, dueDateAndTime := JStr (toISO tv), priority := a_priority,
                   estTimeToComplete := a_est, timeSpent := a_timeSpent\<rparr>]\<rparr>, Resolved ())"
    using i(2) by (simp add: updateTask_def Let_def i(1))
  with i show ?thesis
    by (intro exI [of _ i]) simp
qed

theorem updateTask_overwrites_five_fields_witness:
  "Some ''b'' \<in> set (map task_id (taskArray ex_data)) \<and>
   snd (updateTask ex_toISOString ex_data (Resolved (Some ''b'')) (Some ''b'') (Some ''L9'')
          (Some ''repot the fern'') (JDate (Some 1649179422000)) (JStr ''high'')
          (JNum (Fin 3)) (JNum (Fin 1))) = Resolved () \<and>
   taskArray (fst (updateTask ex_toISOString ex_data (Resolved (Some ''b'')) (Some ''b'')
          (Some ''L9'') (Some ''repot the fern'') (JDate (Some 1649179422000)) (JStr ''high'')
          (JNum (Fin 3)) (JNum (Fin 1)))) =
     [ex_task ''a'' ''L1'',
      \<lparr>name = Some ''repot the fern'', task_id = Some ''b'', taskListId = Some ''L1'',
       dueDay = None, priority = JStr ''high'', estTimeToComplete = JNum (Fin 3),
       timeSpent = JNum (Fin 1), dueDateAndTime = JStr ''2022-04-05T17:23:42.000Z''\<rparr>,
      ex_task ''c'' ''L2'']"
proof -
  let ?u = "updateTask ex_toISOString ex_data (Resolved (Some ''b'')) (Some ''b'') (Some ''L9'')
          (Some ''repot the fern'') (JDate (Some 1649179422000)) (JStr ''high'')
          (JNum (Fin 3)) (JNum (Fin 1))"
  have ids: "map task_id (taskArray ex_data) = [Some ''a'', Some ''b'', Some ''c'']"
    by (simp add: ex_data_def ex_new_def newTaskData_def ex_task_def)
  have m: "Some ''b'' \<in> set (map task_id (taskArray ex_data))"
    by (simp add: ids)
  from updateTask_overwrites_five_fields [OF m, of ex_toISOString "Some ''b''" "Some ''L9''"
      "Some ''repot the fern''" 1649179422000 "JStr ''high''" "JNum (Fin 3)" "JNum (Fin 1)"]
  obtain i where i:
    "i < length (taskArray ex_data)" "task_id (taskArray ex_data ! i) = Some ''b''"
    "snd ?u = Resolved ()"
    "taskArray (fst ?u) =
       (taskArray ex_data)[i := (taskArray ex_data ! i)
          \<lparr>name := Some ''repot the fern'',
           dueDateAndTime := JStr (ex_toISOString 1649179422000), priority := JStr ''high'',
           estTimeToComplete := JNum (Fin 3), timeSpent := JNum (Fin 1)\<rparr>]"
    by blast
  have "map task_id (taskArray ex_data) ! i = Some ''b''"
    using i(1,2) by simp
  moreover have "i < 3"
    using i(1) by (simp add: ex_data_def ex_new_def newTaskData_def)
  ultimately have "i = 1"
    unfolding ids by (auto simp: nth_Cons split: nat.splits)
  with i(4) have "taskArray (fst ?u) =
     [ex_task ''a'' ''L1'',
      \<lparr>name = Some ''repot the fern'', task_id = Some ''b'', taskListId = Some ''L1'',
       dueDay = None, priority = JStr ''high'', estTimeToComplete = JNum (Fin 3),
       timeSpent = JNum (Fin 1), dueDateAndTime = JStr ''2022-04-05T17:23:42.000Z''\<rparr>,
      ex_task ''c'' ''L2'']"
    by (simp add: ex_data_def ex_new_def newTaskData_def ex_task_def ex_toISOString_def)
  with m i(3) show ?thesis by blast
qed

text \<open>
  C5. For an id that no record has, the specification asks for a reported failure and an
  unchanged collection.  \<open>updateTask\<close> is rejected with the collection unchanged
  (\<open>updateTask_absent\<close>), but \<open>completeTask\<close> resolves and removes the first record
  (\<open>completeTask_absent\<close>): \<open>findTask\<close> logs the error and returns \<open>undefined\<close>,
  which \<open>splice\<close> takes as index 0.  Here the unknown id \<open>zzz\<close> removes task \<open>a\<close>.
\<close>

theorem completeTask_unknown_id_removes_first:
  "Some ''zzz'' \<notin> set (map task_id (taskArray ex_data)) \<and>
   completeTask ex_data (Some ''zzz'') =
     (ex_data\<lparr>fsCalls := [SetTaskCompleteInFirebase ''user@example.com'' (Some ''zzz'') True],
              gCalls := [CompleteGoogleTask (Some ''zzz'') JUndefined ''token''],
              console := [''Error: Did not find task''],
              taskArray := [ex_task ''b'' ''L1'', ex_task ''c'' ''L2'']\<rparr>, Resolved ())"
  by (simp add: completeTask_def findTask_def splice1_def ex_data_def ex_new_def newTaskData_def ex_task_def Let_def)

section \<open>Unique ids in the collection\<close>

text \<open>
  C9. The constructor's collection has distinct ids (it is empty), and each operation
  keeps the ids of the collection distinct, however it ends:
  \<open>getGoogleData\<close> when the ids of the tasks the service returns are distinct,
  \<open>createTask\<close> when the id the service returns is not already in the collection,
  \<open>getFirebaseData\<close>, \<open>updateTask\<close> and \<open>completeTask\<close> always.
\<close>

theorem uniqueIds_preserved:
  assumes u: "uniqueIds s"
  shows "uniqueIds (newTaskData a_accessToken a_userEmail) \<and>
         ((\<forall>ls. taskLists = Body (Some ls) \<longrightarrow>
             distinct (map (gid \<circ> snd) (returnedTasks fetchTasks ls))) \<longrightarrow>
            uniqueIds (fst (getGoogleData s taskLists fetchTasks))) \<and>
         uniqueIds (fst (getFirebaseData s docs)) \<and>
         ((\<forall>newId. created = Resolved newId \<longrightarrow> newId \<notin> set (map task_id (taskArray s))) \<longrightarrow>
            uniqueIds (fst (createTask s created a_name a_dueDate a_priority a_est))) \<and>
         uniqueIds (fst (updateTask toISO s updated a_taskId a_taskListId a_name a_dueDate'
                           a_priority' a_est' a_timeSpent)) \<and>
         uniqueIds (fst (completeTask s taskId))"
proof -
  have google: "uniqueIds (fst (getGoogleData s taskLists fetchTasks))"
    if d: "\<forall>ls. taskLists = Body (Some ls) \<longrightarrow>
             distinct (map (gid \<circ> snd) (returnedTasks fetchTasks ls))"
  proof -
    from getGoogleData_ids_cases [of s taskLists fetchTasks]
    show ?thesis
    proof
      assume "map task_id (taskArray (fst (getGoogleData s taskLists fetchTasks))) =
                map task_id (taskArray s)"
      with u show ?thesis by (simp add: uniqueIds_def)
    next
      assume "\<exists>ls. taskLists = Body (Some ls) \<and>
                map task_id (taskArray (fst (getGoogleData s taskLists fetchTasks))) =
                  map (gid \<circ> snd) (openTasks (returnedTasks fetchTasks ls))"
      then obtain ls where ls: "taskLists = Body (Some ls)"
        "map task_id (taskArray (fst (getGoogleData s taskLists fetchTasks))) =
           map (gid \<circ> snd) (openTasks (returnedTasks fetchTasks ls))"
        by blast
      from d ls(1) have "distinct (map (gid \<circ> snd) (returnedTasks fetchTasks ls))"
        by blast
      then have "distinct (map (gid \<circ> snd) (openTasks (returnedTasks fetchTasks ls)))"
        unfolding openTasks_def by (rule distinct_map_filter)
      with ls(2) show ?thesis by (simp add: uniqueIds_def)
    qed
  qed
  have firebase: "uniqueIds (fst (getFirebaseData s docs))"
    using u by (simp add: uniqueIds_def getFirebaseData_ids)
  have create: "uniqueIds (fst (createTask s created a_name a_dueDate a_priority a_est))"
    if "\<forall>newId. created = Resolved newId \<longrightarrow> newId \<notin> set (map task_id (taskArray s))"
    using u that by (cases created) (auto simp: uniqueIds_def createTask_def Let_def)
  have update: "uniqueIds (fst (updateTask toISO s updated a_taskId a_taskListId a_name a_dueDate'
                           a_priority' a_est' a_timeSpent))"
    using u by (simp add: uniqueIds_def updateTask_ids)
  have complete: "uniqueIds (fst (completeTask s taskId))"
  proof -
    obtain i where "taskArray (fst (completeTask s taskId)) = splice1 i (taskArray s)"
      using completeTask_splice by blast
    moreover from u have "distinct (map task_id (taskArray s))"
      by (simp add: uniqueIds_def)
    then have "distinct (map task_id (splice1 i (taskArray s)))"
      unfolding splice1_def Let_def by (rule distinct_map_splice)
    ultimately show ?thesis
      by (simp add: uniqueIds_def)
  qed
  have new: "uniqueIds (newTaskData a_accessToken a_userEmail)"
    by (simp add: uniqueIds_def newTaskData_def)
  from new google firebase create update complete show ?thesis by blast
qed

theorem uniqueIds_preserved_witness:
  "uniqueIds ex_new \<and> uniqueIds ex_data \<and>
   distinct (map (gid \<circ> snd) (returnedTasks ex_fetchTasks [Some ''L1'', Some ''L2''])) \<and>
   uniqueIds (fst (getGoogleData ex_data (Body (Some [Some ''L1'', Some ''L2''])) ex_fetchTasks)) \<and>
   uniqueIds (fst (getFirebaseData ex_data ex_docs)) \<and>
   Some ''d'' \<notin> set (map task_id (taskArray ex_data)) \<and>
   uniqueIds (fst (createTask ex_data (Resolved (Some ''d'')) (Some ''repot the fern'')
      (JDate (Some 1649179422000)) (JStr ''high'') (JNum (Fin 3)))) \<and>
   uniqueIds (fst (updateTask ex_toISOString ex_data (Resolved (Some ''b'')) (Some ''b'')
      (Some ''L1'') (Some ''repot the fern'') (JDate (Some 1649179422000)) (JStr ''high'')
      (JNum (Fin 3)) (JNum (Fin 1)))) \<and>
   uniqueIds (fst (completeTask ex_data (Some ''b'')))"
proof -
  have u: "uniqueIds ex_data"
    by (simp add: uniqueIds_def ex_data_def ex_new_def newTaskData_def ex_task_def)
  have d: "distinct (map (gid \<circ> snd) (returnedTasks ex_fetchTasks [Some ''L1'', Some ''L2'']))"
    by (simp add: returnedTasks_def ex_fetchTasks_def ex_gtask_def)
  have n: "Some ''d'' \<notin> set (map task_id (taskArray ex_data))"
    by (simp add: ex_data_def ex_new_def newTaskData_def ex_task_def)
  note t = uniqueIds_preserved [OF u,
      where a_accessToken = "''token''" and a_userEmail = "''user@example.com''"
        and taskLists = "Body (Some [Some ''L1'', Some ''L2''])" and fetchTasks = ex_fetchTasks
        and docs = ex_docs and created = "Resolved (Some ''d'')"
        and a_name = "Some ''repot the fern''" and a_dueDate = "JDate (Some 1649179422000)"
        and a_priority = "JStr ''high''" and a_est = "JNum (Fin 3)"
        and toISO = ex_toISOString and updated = "Resolved (Some ''b'')"
        and a_taskId = "Some ''b''" and a_taskListId = "Some ''L1''"
        and a_dueDate' = "JDate (Some 1649179422000)" and a_priority' = "JStr ''high''"
        and a_est' = "JNum (Fin 3)" and a_timeSpent = "JNum (Fin 1)" and taskId = "Some ''b''"]
  from t d have 1: "uniqueIds (fst (getGoogleData ex_data (Body (Some [Some ''L1'', Some ''L2'']))
      ex_fetchTasks))"
    by simp
  from t n have 3: "uniqueIds (fst (createTask ex_data (Resolved (Some ''d''))
      (Some ''repot the fern'') (JDate (Some 1649179422000)) (JStr ''high'') (JNum (Fin 3))))"
    by simp
  from t have 0: "uniqueIds ex_new"
    by (simp add: ex_new_def)
  from 0 u d n 1 3 t show ?thesis by blast
qed

section \<open>Properties of addTimeSpent\<close>

text \<open>
  What one update does, whatever the numbers are: the time left that \<open>addTimeSpent\<close>
  displays is a number that is not below 0.
\<close>

lemma addTimeSpent_timeLeft_not_negative:
  "\<exists>n. displayTimeLeft (fst (addTimeSpent roundDouble parseText a_userEmail task st)) = JNum n \<and>
       \<not> js_lt n (Fin 0)"
  by (simp add: addTimeSpent_def Let_def)

text \<open>
  The time spent that \<open>addTimeSpent\<close> displays and sends to the document store is the
  sum of the time spent the viewer was opened with and the entered time; it does not depend
  on what the viewer displayed before.
\<close>

lemma addTimeSpent_adds_to_opening_value:
  "displayTimeSpent (fst (addTimeSpent roundDouble parseText a_userEmail task st)) =
     JNum (js_add roundDouble (parseFloat parseText (vt_timeSpent task))
                              (parseFloat parseText (inputTimeSpent st))) \<and>
   snd (addTimeSpent roundDouble parseText a_userEmail task st) =
     UpdateTimeSpentInFirebase a_userEmail (vt_id task)
       (js_add roundDouble (parseFloat parseText (vt_timeSpent task))
                           (parseFloat parseText (inputTimeSpent st))) \<and>
   inputTimeSpent (fst (addTimeSpent roundDouble parseText a_userEmail task st)) = JNum (Fin 0)"
  by (simp add: addTimeSpent_def Let_def)

text \<open>
  C3. The new time spent should be the previous time spent plus the added time, and the
  time left the estimate minus it, or 0.  The first update of a viewer does this: with an
  estimate of 10 and 4 hours spent, entering 8 displays 12 hours spent and 0 left and
  stores 12.  A second update in the same viewer does not: it adds to the 4 hours the
  viewer was opened with, so entering 1 displays 5 hours spent and 5 left and stores 5,
  where the previous time spent was 12.
\<close>

theorem addTimeSpent_second_update_forgets_first:
  "addTimeSpent ex_roundDouble ex_parseText ''user@example.com'' ex_viewTask
     (onChangeText ''8'' (ex_modalState (JNum (Fin 0)))) =
     (\<lparr>inputTimeSpent = JNum (Fin 0), displayTimeSpent = JNum (Fin 12),
       displayTimeLeft = JNum (Fin 0)\<rparr>,
      UpdateTimeSpentInFirebase ''user@example.com'' (Some ''a'') (Fin 12)) \<and>
   addTimeSpent ex_roundDouble ex_parseText ''user@example.com'' ex_viewTask
     (onChangeText ''1''
        \<lparr>inputTimeSpent = JNum (Fin 0), displayTimeSpent = JNum (Fin 12),
         displayTimeLeft = JNum (Fin 0)\<rparr>) =
     (\<lparr>inputTimeSpent = JNum (Fin 0), displayTimeSpent = JNum (Fin 5),
       displayTimeLeft = JNum (Fin 5)\<rparr>,
      UpdateTimeSpentInFirebase ''user@example.com'' (Some ''a'') (Fin 5))"
  by (simp add: addTimeSpent_def onChangeText_def ex_viewTask_def ex_modalState_def
        ex_parseText_def ex_roundDouble_def Let_def)

end
